theory Spec2Isabelle
  imports Complex_Main "HOL-Library.Log_Nat" "HOL-Library.AList"
begin

section \<open>Exceptions\<close>

text \<open>
  The exception classes that the modelled code can raise or let through: \<open>ValueError\<close>
  (raised by \<open>load_image\<close>), \<open>NameError\<close> (a name that is bound nowhere), \<open>OSError\<close>
  (from \<open>os.listdir\<close>), \<open>ZeroDivisionError\<close> and \<open>cv2.error\<close> (raised inside an OpenCV
  call). The sources define no exception class of their own.
\<close>

datatype exn = ValueError | NameError string | OSError | ZeroDivisionError | CvError

fun exn_name :: "exn \<Rightarrow> string" where
  "exn_name ValueError = ''ValueError''"
| "exn_name (NameError _) = ''NameError''"
| "exn_name OSError = ''OSError''"
| "exn_name ZeroDivisionError = ''ZeroDivisionError''"
| "exn_name CvError = ''error''"

section \<open>The dataset loader (covid\_loader.py)\<close>

text \<open>
  The file system is the loader's environment: \<open>os.path.exists\<close> and \<open>os.listdir\<close>
  (which raises \<open>OSError\<close> where it cannot list) are fields of a record.
\<close>

record filesystem =
  path_exists :: "string \<Rightarrow> bool"
  listdir :: "string \<Rightarrow> string list option"

text \<open>\<open>os.path.join\<close> (POSIX) of two components, and of three as the loader calls it.\<close>

definition path_join :: "string \<Rightarrow> string \<Rightarrow> string" where
  "path_join a b =
     (if b \<noteq> [] \<and> hd b = CHR ''/'' then b
      else if a = [] \<or> last a = CHR ''/'' then a @ b
      else a @ ''/'' @ b)"

definition path_join3 :: "string \<Rightarrow> string \<Rightarrow> string \<Rightarrow> string" where
  "path_join3 a b c = path_join (path_join a b) c"

text \<open>\<open>str.lower\<close> on ASCII letters and \<open>str.endswith\<close> with a tuple of suffixes.\<close>

definition lower_char :: "char \<Rightarrow> char" where
  "lower_char c =
     (let n = (of_char c :: nat) in if 65 \<le> n \<and> n \<le> 90 then char_of (n + 32) else c)"

definition lower :: "string \<Rightarrow> string" where
  "lower s = map lower_char s"

definition endswith :: "string \<Rightarrow> string \<Rightarrow> bool" where
  "endswith s suf = (length suf \<le> length s \<and> drop (length s - length suf) s = suf)"

definition endswith_any :: "string \<Rightarrow> string list \<Rightarrow> bool" where
  "endswith_any s sufs = list_ex (endswith s) sufs"

definition dataset_path :: string where
  "dataset_path = ''data/covid_dataset''"

text \<open>The dictionary \<open>self.categories\<close>, display name to folder name, in insertion order.\<close>

definition categories :: "(string \<times> string) list" where
  "categories =
     [(''COVID'', ''COVID''),
      (''Normal'', ''normal''),
      (''Lung_Opacity'', ''lung_opacity''),
      (''Viral_Pneumonia'', ''Viral Pneumonia'')]"

record cat_info =
  count :: nat
  path :: string
  images :: "string list"
  folder_name :: string

definition is_image_file :: "string \<Rightarrow> bool" where
  "is_image_file f = endswith_any (lower f) [''.png'', ''.jpg'', ''.jpeg'', ''.bmp'']"

text \<open>
  The loop of \<open>get_dataset_info\<close> over \<open>self.categories.items()\<close>: a category whose
  \<open>images\<close> folder exists gets an entry (a later entry for the same key replaces the
  earlier one, as a dictionary assignment does); the others are skipped.
\<close>

fun scan_categories ::
  "filesystem \<Rightarrow> (string \<times> string) list \<Rightarrow> (string \<times> cat_info) list
     \<Rightarrow> exn + (string \<times> cat_info) list" where
  "scan_categories fs [] info = Inr info"
| "scan_categories fs ((display_name, folder) # rest) info =
     (let images_path = path_join3 dataset_path folder ''images'' in
      if path_exists fs images_path then
        (case listdir fs images_path of
           None \<Rightarrow> Inl OSError
         | Some entries \<Rightarrow>
             (let imgs = filter is_image_file entries in
              scan_categories fs rest
                (AList.update display_name
                   \<lparr>count = length imgs, path = images_path, images = imgs,
                    folder_name = folder\<rparr> info)))
      else scan_categories fs rest info)"

definition get_dataset_info :: "filesystem \<Rightarrow> exn + (string \<times> cat_info) list option" where
  "get_dataset_info fs =
     (if \<not> path_exists fs dataset_path then Inr None
      else (case scan_categories fs categories [] of
              Inl e \<Rightarrow> Inl e
            | Inr info \<Rightarrow> Inr (Some info)))"

text \<open>
  The slice \<open>images[:n]\<close> for a Python integer \<open>n\<close>: a negative bound counts from the end.
\<close>

definition slice_to :: "int \<Rightarrow> 'a list \<Rightarrow> 'a list" where
  "slice_to n xs =
     (if 0 \<le> n then take (nat n) xs else take (nat (int (length xs) + n)) xs)"

text \<open>
  \<open>max_images\<close> is \<open>None\<close> or an integer; \<open>if max_images:\<close> is false for \<open>None\<close> and
  for \<open>0\<close>, true for every other integer.
\<close>

definition truthy :: "int option \<Rightarrow> bool" where
  "truthy m = (case m of None \<Rightarrow> False | Some n \<Rightarrow> n \<noteq> 0)"

definition get_all_category_images ::
  "filesystem \<Rightarrow> string \<Rightarrow> int option \<Rightarrow> exn + string list" where
  "get_all_category_images fs category max_images =
     (case get_dataset_info fs of
        Inl e \<Rightarrow> Inl e
      | Inr None \<Rightarrow> Inr []
      | Inr (Some category_info) \<Rightarrow>
          (case map_of category_info category of
             None \<Rightarrow> Inr []
           | Some ci \<Rightarrow>
               (let imgs = (if truthy max_images then slice_to (the max_images) (images ci)
                            else images ci)
                in Inr (map (path_join (path ci)) imgs))))"

text \<open>A small file system: the COVID folder holds three images and a text file.\<close>

definition fs_example :: filesystem where
  "fs_example =
     \<lparr>path_exists = (\<lambda>p. p = ''data/covid_dataset'' \<or> p = ''data/covid_dataset/COVID/images''),
      listdir = (\<lambda>p. if p = ''data/covid_dataset/COVID/images''
                      then Some [''a.png'', ''notes.txt'', ''b.JPG'', ''c.bmp''] else None)\<rparr>"

section \<open>The loader: limits on the listing\<close>

lemma scan_example:
  "scan_categories fs_example categories [] =
     Inr [(''COVID'', \<lparr>count = 3, path = ''data/covid_dataset/COVID/images'',
                       images = [''a.png'', ''b.JPG'', ''c.bmp''], folder_name = ''COVID''\<rparr>)]"
  by code_simp

lemma info_example:
  "get_dataset_info fs_example =
     Inr (Some [(''COVID'', \<lparr>count = 3, path = ''data/covid_dataset/COVID/images'',
                       images = [''a.png'', ''b.JPG'', ''c.bmp''], folder_name = ''COVID''\<rparr>)])"
  unfolding get_dataset_info_def scan_example
  by (simp add: fs_example_def dataset_path_def)

text \<open>
  C10. For a category that the scan lists, \<open>get_all_category_images\<close> with a positive
  \<open>max_images = n\<close> returns the paths of the first \<open>min n total\<close> images of the category's
  listing; with \<open>max_images = 0\<close> or \<open>None\<close> the limit is skipped and the path of every
  image of the category is returned: asking for zero images yields all of them.
\<close>

theorem get_all_category_images_limit:
  assumes "get_dataset_info fs = Inr (Some category_info)"
    and "map_of category_info category = Some ci"
  shows "get_all_category_images fs category None =
           Inr (map (path_join (path ci)) (images ci))
       \<and> get_all_category_images fs category (Some 0) =
           Inr (map (path_join (path ci)) (images ci))
       \<and> (0 < n \<longrightarrow>
            get_all_category_images fs category (Some n) =
              Inr (map (path_join (path ci)) (take (nat n) (images ci)))
          \<and> length (map (path_join (path ci)) (take (nat n) (images ci))) =
              min (nat n) (length (images ci)))"
  using assms by (auto simp: get_all_category_images_def truthy_def slice_to_def)

theorem get_all_category_images_limit_witness:
  "get_all_category_images fs_example ''COVID'' None =
     Inr [''data/covid_dataset/COVID/images/a.png'', ''data/covid_dataset/COVID/images/b.JPG'',
          ''data/covid_dataset/COVID/images/c.bmp'']
   \<and> get_all_category_images fs_example ''COVID'' (Some 0) =
     Inr [''data/covid_dataset/COVID/images/a.png'', ''data/covid_dataset/COVID/images/b.JPG'',
          ''data/covid_dataset/COVID/images/c.bmp'']
   \<and> get_all_category_images fs_example ''COVID'' (Some 2) =
     Inr [''data/covid_dataset/COVID/images/a.png'', ''data/covid_dataset/COVID/images/b.JPG'']"
proof -
  have m: "map_of [(''COVID'', \<lparr>count = 3, path = ''data/covid_dataset/COVID/images'',
                       images = [''a.png'', ''b.JPG'', ''c.bmp''], folder_name = ''COVID''\<rparr>)]
             ''COVID''
           = Some \<lparr>count = 3, path = ''data/covid_dataset/COVID/images'',
                       images = [''a.png'', ''b.JPG'', ''c.bmp''], folder_name = ''COVID''\<rparr>"
    by simp
  show ?thesis
    using get_all_category_images_limit [OF info_example m, of 2]
    by (simp add: path_join_def)
qed

end
